theory Spec2Isabelle
  imports Main "HOL-Library.Word" "HOL-Library.AList_Mapping"
begin

section \<open>Time, errors and results\<close>

text \<open>
  Go's \<open>time.Duration\<close> is an \<open>int64\<close> count of nanoseconds; a \<open>time.Time\<close> is an
  instant, here its count of nanoseconds from the zero \<open>Time\<close> (the range of
  \<open>time.Time\<close> is far wider than that of a \<open>Duration\<close>, so an instant is an unbounded
  integer). A Go \<open>error\<close> value is the sentinel \<open>io.EOF\<close> or an error with a message;
  \<open>nil\<close> is \<open>None\<close>.
\<close>

type_synonym Duration = "64 word"
type_synonym Time = int
datatype error = EOF | Err string

definition Second :: Duration where
  "Second = 1000000000"

definition maxDuration :: Duration where
  "maxDuration = 9223372036854775807"

definition minDuration :: Duration where
  "minDuration = - 9223372036854775808"

text \<open>
  \<open>t.Sub(u)\<close> of the standard library: the duration \<open>t - u\<close>, and the maximum (or
  minimum) duration when \<open>t - u\<close> does not fit an \<open>int64\<close>.
\<close>

definition Sub :: "Time \<Rightarrow> Time \<Rightarrow> Duration" where
  "Sub t u =
     (if t - u > sint maxDuration then maxDuration
      else if t - u < sint minDuration then minDuration
      else word_of_int (t - u))"

text \<open>
  Modelled from the spec: the declarations of \<open>Status\<close>, \<open>Result\<close>, \<open>HostnameResult\<close>,
  \<open>MTASTSResult\<close> and \<open>DomainResult\<close> (checker/result.go, checker/hostname.go,
  checker/mta_sts.go, checker/domain.go) are missing. A status is a severity tier, a numeric
  code in increasing severity: success, warning, failure (the sources compare a status with
  \<open>0\<close> for success, and a test gives a domain the status \<open>5\<close>). The records have the
  fields the data model lists and the sources use. The status and the messages of a
  \<open>HostnameResult\<close> and the status of a \<open>DomainResult\<close> carry the struct's name,
  since a field name belongs to one record.
\<close>

type_synonym Status = nat

definition Success :: Status where
  "Success = 0"

definition Warning :: Status where
  "Warning = 1"

definition Failure :: Status where
  "Failure = 2"

record Result =
  Name :: string
  Status :: Status
  Messages :: "string list"

record HostnameResult =
  Hostname :: string
  HostnameStatus :: Status
  HostnameMessages :: "string list"
  Timestamp :: Time

record MTASTSResult =
  Mode :: string
  MXs :: "string list"
  PolicyStatus :: Status

record DomainResult =
  Domain :: string
  HostnameResults :: "(string, HostnameResult) mapping"
  MTASTSResult :: "MTASTSResult option"
  DomainStatus :: Status

text \<open>The zero value of \<open>HostnameResult\<close>, which a failed map lookup yields.\<close>

definition zeroHostnameResult :: HostnameResult where
  "zeroHostnameResult = \<lparr>Hostname = [], HostnameStatus = 0, HostnameMessages = [], Timestamp = 0\<rparr>"

section \<open>checker/checker.go\<close>

text \<open>An MX record, \<open>net.MX\<close> of the standard library.\<close>

record MX =
  Host :: string
  Pref :: "16 word"

text \<open>
  The \<open>Checker\<close> struct. \<open>Cache\<close> is a pointer and the three overrides are function
  values, each possibly \<open>nil\<close>; \<open>'c\<close> is the type of the cache.
\<close>

record 'c Checker =
  Timeout :: Duration
  Cache :: "'c option"
  lookupMXOverride :: "(string \<Rightarrow> MX list \<times> error option) option"
  checkHostnameOverride :: "(string \<Rightarrow> string \<Rightarrow> HostnameResult) option"
  checkMTASTSOverride ::
    "(string \<Rightarrow> (string, HostnameResult) mapping \<Rightarrow> MTASTSResult option) option"

definition timeout :: "'c Checker \<Rightarrow> Duration" where
  "timeout c = (if Timeout c \<noteq> 0 then Timeout c else 10 * Second)"

section \<open>checker/cache.go\<close>

text \<open>A call returns, or it panics with the message of the run-time error.\<close>

datatype 'a outcome = Returns 'a | Panics string

text \<open>
  A \<open>ScanStore\<close> is an interface value: the state of the object behind it and its two
  methods. A method returns the pair Go returns, the result and the error; a put, which
  writes to the store, may panic instead.
\<close>

record 's ScanStore =
  self :: 's
  GetHostnameScan :: "'s \<Rightarrow> string \<Rightarrow> HostnameResult \<times> error option"
  PutHostnameScan :: "'s \<Rightarrow> string \<Rightarrow> HostnameResult \<Rightarrow> ('s \<times> error option) outcome"

record 's ScanCache =
  ScanStore :: "'s ScanStore"
  ExpireTime :: Duration

text \<open>
  \<open>ScanCache.GetHostnameScan\<close>; \<open>now\<close> is the value of \<open>time.Now()\<close> at the call.
  The comparison of two durations is signed.
\<close>

definition ScanCache_GetHostnameScan ::
    "'s ScanCache \<Rightarrow> Time \<Rightarrow> string \<Rightarrow> HostnameResult \<times> error option" where
  "ScanCache_GetHostnameScan c now hostname =
     (case GetHostnameScan (ScanStore c) (self (ScanStore c)) hostname of
        (result, Some err) \<Rightarrow> (result, Some err)
      | (result, None) \<Rightarrow>
          if ExpireTime c <s Sub now (Timestamp result)
          then (result, Some (Err (''most recent scan for '' @ hostname @ '' expired'')))
          else (result, None))"

text \<open>
  \<open>ScanCache.PutHostnameScan\<close> forwards to the store, whose state it updates; a panic of
  the store's put is a panic of the cache's.
\<close>

definition ScanCache_PutHostnameScan ::
    "'s ScanCache \<Rightarrow> string \<Rightarrow> HostnameResult \<Rightarrow> ('s ScanCache \<times> error option) outcome" where
  "ScanCache_PutHostnameScan c hostname result =
     (case PutHostnameScan (ScanStore c) (self (ScanStore c)) hostname result of
        Panics msg \<Rightarrow> Panics msg
      | Returns (s', err) \<Rightarrow> Returns (c\<lparr>ScanStore := (ScanStore c)\<lparr>self := s'\<rparr>\<rparr>, err))"

text \<open>
  \<open>SimpleStore\<close>: a map from hostnames to results. The map of the zero value
  \<open>SimpleStore{}\<close> is \<open>nil\<close>, here \<open>None\<close>; \<open>MakeSimpleCache\<close> makes the map. A
  \<open>nil\<close> map reads as an empty one, and an assignment to an entry of it panics. The
  mutex orders concurrent calls and has no part in what one call returns.
\<close>

record SimpleStore =
  m :: "(string, HostnameResult) mapping option"

definition zeroSimpleStore :: SimpleStore where
  "zeroSimpleStore = \<lparr>m = None\<rparr>"

definition SimpleStore_GetHostnameScan ::
    "SimpleStore \<Rightarrow> string \<Rightarrow> HostnameResult \<times> error option" where
  "SimpleStore_GetHostnameScan s hostname =
     (case (case m s of None \<Rightarrow> None | Some entries \<Rightarrow> Mapping.lookup entries hostname) of
        None \<Rightarrow> (zeroHostnameResult, Some (Err (''Couldn't find scan for hostname '' @ hostname)))
      | Some result \<Rightarrow> (result, None))"

definition SimpleStore_PutHostnameScan ::
    "SimpleStore \<Rightarrow> string \<Rightarrow> HostnameResult \<Rightarrow> (SimpleStore \<times> error option) outcome" where
  "SimpleStore_PutHostnameScan s hostname result =
     (case m s of
        None \<Rightarrow> Panics ''assignment to entry in nil map''
      | Some entries \<Rightarrow> Returns (s\<lparr>m := Some (Mapping.update hostname result entries)\<rparr>, None))"

definition MakeSimpleCache :: "Duration \<Rightarrow> SimpleStore ScanCache" where
  "MakeSimpleCache expiryTime =
     \<lparr>ScanStore = \<lparr>self = \<lparr>m = Some Mapping.empty\<rparr>,
                   GetHostnameScan = SimpleStore_GetHostnameScan,
                   PutHostnameScan = SimpleStore_PutHostnameScan\<rparr>,
      ExpireTime = expiryTime\<rparr>"

text \<open>
  A cache is backed by the in-memory store when the two methods of its store are those of
  \<open>SimpleStore\<close>; the map of the store is made when it is not \<open>nil\<close>.
\<close>

definition backedBySimpleStore :: "SimpleStore ScanCache \<Rightarrow> bool" where
  "backedBySimpleStore c =
     (GetHostnameScan (ScanStore c) = SimpleStore_GetHostnameScan \<and>
      PutHostnameScan (ScanStore c) = SimpleStore_PutHostnameScan)"

definition mapMade :: "SimpleStore ScanCache \<Rightarrow> bool" where
  "mapMade c = (m (self (ScanStore c)) \<noteq> None)"

text \<open>A cache backed by a \<open>SimpleStore\<close> in the given state.\<close>

definition simpleCache :: "SimpleStore \<Rightarrow> Duration \<Rightarrow> SimpleStore ScanCache" where
  "simpleCache s expiryTime =
     \<lparr>ScanStore = \<lparr>self = s,
                   GetHostnameScan = SimpleStore_GetHostnameScan,
                   PutHostnameScan = SimpleStore_PutHostnameScan\<rparr>,
      ExpireTime = expiryTime\<rparr>"

section \<open>checker/totals.go\<close>

text \<open>
  \<open>DomainTotals\<close>; the two counters are Go \<open>int\<close>s, 64 bits wide, and \<open>++\<close> wraps.
\<close>

record DomainTotals =
  Time :: Time
  Source :: string
  Attempted :: "64 word"
  WithMXs :: "64 word"
  MTASTSTesting :: "string list"
  MTASTSEnforce :: "string list"

definition zeroDomainTotals :: DomainTotals where
  "zeroDomainTotals =
     \<lparr>Time = 0, Source = [], Attempted = 0, WithMXs = 0, MTASTSTesting = [],
      MTASTSEnforce = []\<rparr>"

text \<open>
  \<open>DomainTotals.HandleDomain\<close>, on the totals it updates. \<open>len\<close> of the map of hostname
  results is zero when the map has no key. The progress lines printed every thousandth
  domain go to the process log and leave the totals as they are.
\<close>

definition HandleDomain :: "DomainResult \<Rightarrow> DomainTotals \<Rightarrow> DomainTotals" where
  "HandleDomain r t =
     (let t1 = t\<lparr>Attempted := Attempted t + 1\<rparr> in
      if Mapping.is_empty (HostnameResults r) then t1
      else
        let t2 = t1\<lparr>WithMXs := WithMXs t1 + 1\<rparr> in
        case MTASTSResult r of
          None \<Rightarrow> t2
        | Some mr \<Rightarrow>
            if Mode mr = ''enforce'' then t2\<lparr>MTASTSEnforce := MTASTSEnforce t2 @ [Domain r]\<rparr>
            else if Mode mr = ''testing''
            then t2\<lparr>MTASTSTesting := MTASTSTesting t2 @ [Domain r]\<rparr>
            else t2)"

text \<open>A sequence of \<open>HandleDomain\<close> calls, one per result, in the order of the list.\<close>

definition handleAll :: "DomainResult list \<Rightarrow> DomainTotals \<Rightarrow> DomainTotals" where
  "handleAll rs t = fold HandleDomain rs t"

text \<open>The tests \<open>HandleDomain\<close> makes on a result.\<close>

definition hasMXs :: "DomainResult \<Rightarrow> bool" where
  "hasMXs r = (\<not> Mapping.is_empty (HostnameResults r))"

definition hasMode :: "string \<Rightarrow> DomainResult \<Rightarrow> bool" where
  "hasMode mode r =
     (hasMXs r \<and> (case MTASTSResult r of None \<Rightarrow> False | Some mr \<Rightarrow> Mode mr = mode))"

text \<open>
  The environment of the process, and \<open>os.Getenv\<close>: the value of a variable, empty when
  the variable is not set.
\<close>

type_synonym environ = "string \<rightharpoonup> string"

definition Getenv :: "environ \<Rightarrow> string \<Rightarrow> string" where
  "Getenv env key = (case env key of None \<Rightarrow> [] | Some v \<Rightarrow> v)"

text \<open>
  \<open>strconv.Atoi\<close> of the standard library, for a 64-bit \<open>int\<close>: an optional sign and
  one or more decimal digits. Anything else is a syntax error, with the value \<open>0\<close>; a
  number that does not fit is a range error, with the nearest bound as value. The error is
  given by its cause.
\<close>

definition isDigit :: "char \<Rightarrow> bool" where
  "isDigit c = (48 \<le> (of_char c :: nat) \<and> (of_char c :: nat) \<le> 57)"

definition digitsValue :: "string \<Rightarrow> nat" where
  "digitsValue ds = foldl (\<lambda>n c. n * 10 + (of_char c - 48)) 0 ds"

definition Atoi :: "string \<Rightarrow> int \<times> error option" where
  "Atoi s =
     (let neg = (case s of [] \<Rightarrow> False | c # _ \<Rightarrow> c = CHR ''-'');
          ds = (case s of [] \<Rightarrow> [] | c # cs \<Rightarrow> if c = CHR ''-'' \<or> c = CHR ''+'' then cs else s)
      in if ds = [] \<or> \<not> list_all isDigit ds then (0, Some (Err ''invalid syntax''))
         else if neg then
           (if int (digitsValue ds) \<le> 9223372036854775808 then (- int (digitsValue ds), None)
            else (- 9223372036854775808, Some (Err ''value out of range'')))
         else
           (if int (digitsValue ds) \<le> 9223372036854775807 then (int (digitsValue ds), None)
            else (9223372036854775807, Some (Err ''value out of range''))))"

text \<open>
  The decimal numeral of a natural number, as \<open>strconv.Itoa\<close> writes it: the text a
  valid setting of the pool size has.
\<close>

definition digitChar :: "nat \<Rightarrow> char" where
  "digitChar k = ''0123456789'' ! k"

fun decimal :: "nat \<Rightarrow> string" where
  "decimal n = (if n < 10 then [digitChar n]
                else decimal (n div 10) @ [digitChar (n mod 10)])"

declare decimal.simps [simp del]

definition defaultPoolSize :: int where
  "defaultPoolSize = 16"

text \<open>The first statement of \<open>CheckCSV\<close>: the size of the worker pool.\<close>

definition poolSize :: "environ \<Rightarrow> int" where
  "poolSize env =
     (case Atoi (Getenv env ''CONNECTION_POOL_SIZE'') of
        (n, err) \<Rightarrow> if err \<noteq> None \<or> n \<le> 0 then defaultPoolSize else n)"

text \<open>
  The goroutine of \<open>CheckCSV\<close> that reads the input. The reader is the list of what
  its \<open>Read\<close> calls return, one \<open>(data, err)\<close> pair a call; past the end of the list
  a call returns \<open>io.EOF\<close>. The loop ends in one of three ways: it closes \<open>work\<close>,
  \<open>log.Fatal\<close> ends the process, or \<open>data[domainColumn]\<close> is out of range and the
  goroutine panics, which ends the process too. Each outcome carries the domains sent on
  \<open>work\<close> up to there, in order; a send waits for a worker to receive.
\<close>

datatype ReaderOutcome =
    WorkClosed "string list"
  | Fatal error "string list"
  | IndexPanic "string list"

fun readLoop :: "(string list \<times> error option) list \<Rightarrow> int \<Rightarrow> string list \<Rightarrow> ReaderOutcome" where
  "readLoop [] domainColumn sent = WorkClosed sent"
| "readLoop ((data, Some err) # rest) domainColumn sent =
     (if err \<noteq> EOF then Fatal err sent else WorkClosed sent)"
| "readLoop ((data, None) # rest) domainColumn sent =
     (if length data > 0 then
        (if 0 \<le> domainColumn \<and> domainColumn < int (length data)
         then readLoop rest domainColumn (sent @ [data ! nat domainColumn])
         else IndexPanic sent)
      else readLoop rest domainColumn sent)"

text \<open>
  A row has the domain column when it is empty (and skipped) or \<open>domainColumn\<close> indexes
  it; the domains of a list of rows are the entries of the non-empty ones in that column.
\<close>

definition hasColumn :: "int \<Rightarrow> string list \<Rightarrow> bool" where
  "hasColumn domainColumn data =
     (data = [] \<or> (0 \<le> domainColumn \<and> domainColumn < int (length data)))"

definition domainsOf :: "int \<Rightarrow> string list list \<Rightarrow> string list" where
  "domainsOf domainColumn rows =
     map (\<lambda>data. data ! nat domainColumn) (filter (\<lambda>data. data \<noteq> []) rows)"

section \<open>The domain check\<close>

text \<open>
  Modelled from the spec: \<open>CheckDomain\<close> (checker/domain.go) is missing. This is step (5)
  of the domain check: the \<open>DomainResult\<close> composed from the resolved hostnames, the
  result of each, the MTA-STS result and the verdict of its cross-validation. The overall
  status is the most severe of the hostname statuses and of the severity of a
  cross-validation inconsistency (\<open>None\<close> when there is none), and success otherwise. The
  more severe of two statuses is the greater code.
\<close>

definition mostSevere :: "Status list \<Rightarrow> Status" where
  "mostSevere ss = fold max ss Success"

definition composeDomainResult ::
    "string \<Rightarrow> string list \<Rightarrow> (string \<Rightarrow> HostnameResult) \<Rightarrow> MTASTSResult option \<Rightarrow>
     Status option \<Rightarrow> DomainResult" where
  "composeDomainResult domain hostnames hostnameResult mtasts inconsistency =
     \<lparr>Domain = domain,
      HostnameResults =
        fold (\<lambda>hostname. Mapping.update hostname (hostnameResult hostname)) hostnames
          Mapping.empty,
      MTASTSResult = mtasts,
      DomainStatus =
        mostSevere (map (\<lambda>hostname. HostnameStatus (hostnameResult hostname)) hostnames @
                    (case inconsistency of None \<Rightarrow> [] | Some s \<Rightarrow> [s]))\<rparr>"

text \<open>The statuses of the hostname results a domain result holds.\<close>

definition hostnameStatuses :: "DomainResult \<Rightarrow> Status set" where
  "hostnameStatuses dr =
     {s. \<exists>hostname r. Mapping.lookup (HostnameResults dr) hostname = Some r \<and>
                      HostnameStatus r = s}"

section \<open>The validator\<close>

text \<open>
  Modelled from the spec: the \<open>Validator\<close> (validator/validator.go) is missing; its test
  is at hand. A validator has a name, an interval, a store of the domains to validate and
  of the hostnames expected of each, a check function and a failure reporter. The store is
  what its two methods return at the tick. On a tick the validator takes each domain of
  the store in turn, calls the check function on the domain and its hostnames and, when
  the status of the verdict is not success, calls the failure reporter with its name, the
  domain and the verdict. The calls it makes, in order, are what a tick yields.
\<close>

record DomainPolicyStore =
  DomainsToValidate :: "string list"
  HostnamesForDomain :: "string \<Rightarrow> string list"

record Validator =
  ValidatorName :: string
  Interval :: Duration
  Store :: DomainPolicyStore
  checkPerformer :: "string \<Rightarrow> string list \<Rightarrow> DomainResult"

datatype ValidatorCall =
    PerformCheck string "string list"
  | ReportFailure string string DomainResult

definition verdictOf :: "Validator \<Rightarrow> string \<Rightarrow> DomainResult" where
  "verdictOf v domain = checkPerformer v domain (HostnamesForDomain (Store v) domain)"

fun validateDomains :: "Validator \<Rightarrow> string list \<Rightarrow> ValidatorCall list" where
  "validateDomains v [] = []"
| "validateDomains v (domain # domains) =
     PerformCheck domain (HostnamesForDomain (Store v) domain) #
     (if DomainStatus (verdictOf v domain) \<noteq> Success
      then [ReportFailure (ValidatorName v) domain (verdictOf v domain)]
      else []) @
     validateDomains v domains"

definition tick :: "Validator \<Rightarrow> ValidatorCall list" where
  "tick v = validateDomains v (DomainsToValidate (Store v))"

fun isReport :: "ValidatorCall \<Rightarrow> bool" where
  "isReport (ReportFailure name domain verdict) = True"
| "isReport (PerformCheck domain hostnames) = False"

section \<open>models/domain.go\<close>

type_synonym DomainState = string

definition StateUnknown :: DomainState where
  "StateUnknown = ''unknown''"

definition StateUnconfirmed :: DomainState where
  "StateUnconfirmed = ''unvalidated''"

definition StateTesting :: DomainState where
  "StateTesting = ''queued''"

definition StateFailed :: DomainState where
  "StateFailed = ''failed''"

definition StateEnforce :: DomainState where
  "StateEnforce = ''added''"

text \<open>
  The \<open>Domain\<close> struct; its \<open>Name\<close> and \<open>MXs\<close> carry the struct's name, as above.
  \<open>QueueWeeks\<close> is a Go \<open>int\<close>.
\<close>

record Domain =
  DomainName :: string
  Email :: string
  DomainMXs :: "string list"
  MTASTSMode :: string
  State :: DomainState
  LastUpdated :: Time
  TestingStart :: Time
  QueueWeeks :: "64 word"

text \<open>
  The two interfaces \<open>PolicyListCheck\<close> asks: of a \<open>DomainStore\<close> it calls
  \<open>GetDomain\<close> only, which reads the store.
\<close>

record DomainStore =
  GetDomain :: "string \<Rightarrow> DomainState \<Rightarrow> Domain \<times> error option"

record policyList =
  HasDomain :: "string \<Rightarrow> bool"

text \<open>
  Modelled from the spec: the builders \<open>Success\<close>, \<open>Warning\<close> and \<open>Failure\<close> of
  \<open>Result\<close> (checker/result.go) are missing. A builder fixes the severity of the
  result and its message at once; the message is the format with its arguments filled in.
\<close>

definition Result_Success :: "Result \<Rightarrow> Result" where
  "Result_Success r = r\<lparr>Status := Success\<rparr>"

definition Result_Warning :: "Result \<Rightarrow> string \<Rightarrow> Result" where
  "Result_Warning r msg = r\<lparr>Status := Warning, Messages := Messages r @ [msg]\<rparr>"

definition Result_Failure :: "Result \<Rightarrow> string \<Rightarrow> Result" where
  "Result_Failure r msg = r\<lparr>Status := Failure, Messages := Messages r @ [msg]\<rparr>"

text \<open>
  \<open>Domain.PolicyListCheck\<close>. The constant \<open>checker.PolicyList\<close>, the name of the check,
  is declared outside the sources at hand and is the parameter \<open>PolicyList\<close>. An error is
  \<open>nil\<close> when it is \<open>None\<close>. The line the second branch logs leaves the result as it is.
\<close>

definition PolicyListCheck :: "string \<Rightarrow> Domain \<Rightarrow> DomainStore \<Rightarrow> policyList \<Rightarrow> Result" where
  "PolicyListCheck PolicyList d store list =
     (let result = \<lparr>Name = PolicyList, Status = 0, Messages = []\<rparr> in
      if HasDomain list (DomainName d) then Result_Success result
      else if snd (GetDomain store (DomainName d) StateEnforce) = None
      then Result_Success result
      else if snd (GetDomain store (DomainName d) StateTesting) = None
      then Result_Warning result
             (''Domain '' @ DomainName d @ '' is queued to be added to the policy list.'')
      else if snd (GetDomain store (DomainName d) StateUnconfirmed) = None
      then Result_Failure result
             (''The policy addition request for '' @ DomainName d @
              '' is waiting on email validation'')
      else Result_Failure result
             (''Domain '' @ DomainName d @ '' is not on the policy list.''))"

section \<open>Durations\<close>

lemma sint_word_of_int_64:
  "- (2^63) \<le> d \<Longrightarrow> d \<le> 2^63 - 1 \<Longrightarrow> sint (word_of_int d :: 64 word) = d"
  by (simp add: signed_of_int signed_take_bit_int_eq_self)

lemma sint_Sub: "sint (Sub t u) = max (- (2^63)) (min (2^63 - 1) (t - u))"
proof -
  define d where "d = t - u"
  have "sint (if d > sint maxDuration then maxDuration
      else if d < sint minDuration then minDuration
      else word_of_int d) = max (- (2^63)) (min (2^63 - 1) d)"
    using sint_word_of_int_64[of d]
    by (auto simp: maxDuration_def minDuration_def)
  then show ?thesis by (simp only: Sub_def d_def)
qed

text \<open>
  Below the largest duration, comparing \<open>Sub t u\<close> with a window is comparing the
  difference of the two instants with it.
\<close>

lemma Sub_sle_iff:
  assumes "E \<noteq> maxDuration"
  shows "(Sub t u \<le>s E) = (t - u \<le> sint E)"
proof -
  have "sint E \<noteq> sint maxDuration"
    using assms by (auto dest: signed_word_eqI)
  then have "sint E \<noteq> 2^63 - 1" by (simp add: maxDuration_def)
  moreover have "sint E < 2^63" "- (2^63) \<le> sint E"
    using sint_lt[of E] sint_ge[of E] by simp_all
  ultimately show ?thesis
    by (auto simp: word_sle_eq sint_Sub)
qed

section \<open>The checker's timeout\<close>

text \<open>
  C7: the timeout a checker applies to network requests is its \<open>Timeout\<close> field when
  that field is set, and ten seconds (ten thousand million nanoseconds) when the field has
  the zero value.
\<close>

theorem timeout_configured_or_default:
  "(Timeout c \<noteq> 0 \<longrightarrow> timeout c = Timeout c) \<and>
   (Timeout c = 0 \<longrightarrow> timeout c = 10 * Second \<and> sint (timeout c) = 10000000000)"
  by (simp add: timeout_def Second_def)

theorem timeout_configured_or_default_witness:
  "timeout \<lparr>Timeout = 3 * Second, Cache = (None :: unit option), lookupMXOverride = None,
            checkHostnameOverride = None, checkMTASTSOverride = None\<rparr> = 3000000000 \<and>
   timeout \<lparr>Timeout = 0, Cache = (None :: unit option), lookupMXOverride = None,
            checkHostnameOverride = None, checkMTASTSOverride = None\<rparr> = 10000000000"
  using timeout_configured_or_default
          [of "\<lparr>Timeout = 3 * Second, Cache = (None :: unit option), lookupMXOverride = None,
                checkHostnameOverride = None, checkMTASTSOverride = None\<rparr>"]
        timeout_configured_or_default
          [of "\<lparr>Timeout = 0, Cache = (None :: unit option), lookupMXOverride = None,
                checkHostnameOverride = None, checkMTASTSOverride = None\<rparr>"]
  by (simp add: Second_def)

section \<open>The scan cache\<close>

text \<open>
  The comparison \<open>GetHostnameScan\<close> makes, in terms of the two instants: the difference
  \<open>now - Timestamp\<close>, capped at the largest duration, against the window.
\<close>

lemma Sub_sle_capped: "(Sub t u \<le>s E) = (min (2^63 - 1) (t - u) \<le> sint E)"
  using sint_ge[of E] by (auto simp: word_sle_eq sint_Sub)

lemma Sub_sle_maxDuration: "Sub t u \<le>s maxDuration"
  by (simp add: Sub_sle_capped maxDuration_def)

lemma within_window_sle: "t - u \<le> sint E \<Longrightarrow> Sub t u \<le>s E"
  by (simp add: Sub_sle_capped min_le_iff_disj)

lemma ScanCache_GetHostnameScan_hit:
  "(ScanCache_GetHostnameScan c now h = (r, None)) =
     (GetHostnameScan (ScanStore c) (self (ScanStore c)) h = (r, None) \<and>
      Sub now (Timestamp r) \<le>s ExpireTime c)"
  by (auto simp: ScanCache_GetHostnameScan_def word_sless_alt word_sle_eq
           split: prod.splits option.splits if_splits)

text \<open>
  C1, as it is written, fails for a window of the largest duration: there the age of a
  result from the year 1, read in 2026, is more than the window, and yet the result is a
  hit, since \<open>Sub\<close> stops at the largest duration.
\<close>

theorem cache_hit_beyond_window_counterexample:
  "ScanCache_GetHostnameScan
     (simpleCache \<lparr>m = Some (Mapping.update ''mx.example.com''
        \<lparr>Hostname = ''mx.example.com'', HostnameStatus = 0, HostnameMessages = [], Timestamp = 0\<rparr> Mapping.empty)\<rparr> maxDuration)
     63929088000000000000 ''mx.example.com''
     = (\<lparr>Hostname = ''mx.example.com'', HostnameStatus = 0, HostnameMessages = [], Timestamp = 0\<rparr>, None) \<and>
   \<not> (63929088000000000000 - Timestamp \<lparr>Hostname = ''mx.example.com'', HostnameStatus = 0, HostnameMessages = [], Timestamp = 0\<rparr>
        \<le> sint (ExpireTime
     (simpleCache \<lparr>m = Some (Mapping.update ''mx.example.com''
        \<lparr>Hostname = ''mx.example.com'', HostnameStatus = 0, HostnameMessages = [], Timestamp = 0\<rparr> Mapping.empty)\<rparr> maxDuration)))"
  by (simp add: ScanCache_GetHostnameScan_def simpleCache_def SimpleStore_GetHostnameScan_def
        Sub_def maxDuration_def minDuration_def word_sless_alt)

text \<open>
  C1, amended: \<open>ScanCache.GetHostnameScan\<close> returns a result with no error exactly when
  the backing store returns that result with no error and the result's age,
  \<open>now - Timestamp\<close> capped at the largest duration \<open>2^63 - 1\<close>, is at most
  \<open>ExpireTime\<close>. So for every \<open>ExpireTime\<close> below the largest duration it is a hit
  exactly when \<open>now - Timestamp\<close> is at most \<open>ExpireTime\<close>, and for the largest
  duration every result the store holds is a hit. A stored result over the window comes
  back with an error, as a hostname the store does not hold.
\<close>

theorem cache_hit_iff_fresh:
  "(ScanCache_GetHostnameScan c now h = (r, None)) =
     (GetHostnameScan (ScanStore c) (self (ScanStore c)) h = (r, None) \<and>
      min (2^63 - 1) (now - Timestamp r) \<le> sint (ExpireTime c)) \<and>
   (ExpireTime c \<noteq> maxDuration \<longrightarrow>
      (ScanCache_GetHostnameScan c now h = (r, None)) =
        (GetHostnameScan (ScanStore c) (self (ScanStore c)) h = (r, None) \<and>
         now - Timestamp r \<le> sint (ExpireTime c))) \<and>
   (ExpireTime c = maxDuration \<longrightarrow>
      (ScanCache_GetHostnameScan c now h = (r, None)) =
        (GetHostnameScan (ScanStore c) (self (ScanStore c)) h = (r, None))) \<and>
   (snd (ScanCache_GetHostnameScan c now h) = None) =
     (\<exists>r'. GetHostnameScan (ScanStore c) (self (ScanStore c)) h = (r', None) \<and>
           min (2^63 - 1) (now - Timestamp r') \<le> sint (ExpireTime c)) \<and>
   (GetHostnameScan (ScanStore c) (self (ScanStore c)) h = (r, None) \<and>
    sint (ExpireTime c) < min (2^63 - 1) (now - Timestamp r) \<longrightarrow>
      snd (ScanCache_GetHostnameScan c now h) \<noteq> None) \<and>
   (snd (GetHostnameScan (ScanStore c) (self (ScanStore c)) h) \<noteq> None \<longrightarrow>
      snd (ScanCache_GetHostnameScan c now h) \<noteq> None)"
proof -
  let ?get = "GetHostnameScan (ScanStore c) (self (ScanStore c)) h"
  have capped: "(ScanCache_GetHostnameScan c now h = (r, None)) =
     (?get = (r, None) \<and> min (2^63 - 1) (now - Timestamp r) \<le> sint (ExpireTime c))"
    by (simp only: ScanCache_GetHostnameScan_hit Sub_sle_capped)
  have below: "ExpireTime c \<noteq> maxDuration \<longrightarrow>
      (ScanCache_GetHostnameScan c now h = (r, None)) =
        (?get = (r, None) \<and> now - Timestamp r \<le> sint (ExpireTime c))"
    by (simp add: ScanCache_GetHostnameScan_hit Sub_sle_iff)
  have largest: "ExpireTime c = maxDuration \<longrightarrow>
      (ScanCache_GetHostnameScan c now h = (r, None)) = (?get = (r, None))"
    by (simp add: ScanCache_GetHostnameScan_hit Sub_sle_maxDuration)
  have some: "(snd (ScanCache_GetHostnameScan c now h) = None) =
     (\<exists>r'. ?get = (r', None) \<and> min (2^63 - 1) (now - Timestamp r') \<le> sint (ExpireTime c))"
  proof -
    have "(snd (ScanCache_GetHostnameScan c now h) = None) =
            (\<exists>r'. ScanCache_GetHostnameScan c now h = (r', None))"
      by (cases "ScanCache_GetHostnameScan c now h") auto
    then show ?thesis
      by (simp only: ScanCache_GetHostnameScan_hit Sub_sle_capped)
  qed
  have stale: "?get = (r, None) \<and> sint (ExpireTime c) < min (2^63 - 1) (now - Timestamp r) \<longrightarrow>
      snd (ScanCache_GetHostnameScan c now h) \<noteq> None"
  proof
    assume a: "?get = (r, None) \<and> sint (ExpireTime c) < min (2^63 - 1) (now - Timestamp r)"
    then have "\<not> min (2^63 - 1) (now - Timestamp r) \<le> sint (ExpireTime c)"
      by linarith
    then have "\<not> Sub now (Timestamp r) \<le>s ExpireTime c"
      unfolding Sub_sle_capped .
    then have "ExpireTime c <s Sub now (Timestamp r)"
      by (simp add: word_sless_alt word_sle_eq)
    then show "snd (ScanCache_GetHostnameScan c now h) \<noteq> None"
      using a by (simp add: ScanCache_GetHostnameScan_def)
  qed
  have miss: "snd ?get \<noteq> None \<longrightarrow> snd (ScanCache_GetHostnameScan c now h) \<noteq> None"
    by (auto simp: ScanCache_GetHostnameScan_def split: prod.splits option.splits)
  from capped below largest some stale miss show ?thesis by blast
qed

theorem cache_hit_iff_fresh_witness:
  "ScanCache_GetHostnameScan
     (simpleCache \<lparr>m = Some (Mapping.update ''mx.example.com''
        \<lparr>Hostname = ''mx.example.com'', HostnameStatus = 0, HostnameMessages = [], Timestamp = 1000\<rparr> Mapping.empty)\<rparr> (60 * Second))
     2000 ''mx.example.com''
     = (\<lparr>Hostname = ''mx.example.com'', HostnameStatus = 0, HostnameMessages = [], Timestamp = 1000\<rparr>, None) \<and>
   snd (ScanCache_GetHostnameScan
     (simpleCache \<lparr>m = Some (Mapping.update ''mx.example.com''
        \<lparr>Hostname = ''mx.example.com'', HostnameStatus = 0, HostnameMessages = [], Timestamp = 1000\<rparr> Mapping.empty)\<rparr> (60 * Second))
     70000000000 ''mx.example.com'') \<noteq> None \<and>
   snd (ScanCache_GetHostnameScan
     (simpleCache \<lparr>m = Some (Mapping.update ''mx.example.com''
        \<lparr>Hostname = ''mx.example.com'', HostnameStatus = 0, HostnameMessages = [], Timestamp = 1000\<rparr> Mapping.empty)\<rparr> (60 * Second))
     2000 ''mx.example.org'') \<noteq> None \<and>
   ScanCache_GetHostnameScan
     (simpleCache \<lparr>m = Some (Mapping.update ''mx.example.com''
        \<lparr>Hostname = ''mx.example.com'', HostnameStatus = 0, HostnameMessages = [], Timestamp = 0\<rparr> Mapping.empty)\<rparr> maxDuration)
     63929088000000000000 ''mx.example.com''
     = (\<lparr>Hostname = ''mx.example.com'', HostnameStatus = 0, HostnameMessages = [], Timestamp = 0\<rparr>, None)"
  using cache_hit_iff_fresh
     [of "simpleCache \<lparr>m = Some (Mapping.update ''mx.example.com''
        \<lparr>Hostname = ''mx.example.com'', HostnameStatus = 0, HostnameMessages = [], Timestamp = 1000\<rparr> Mapping.empty)\<rparr> (60 * Second)"
         2000 "''mx.example.com''"
         "\<lparr>Hostname = ''mx.example.com'', HostnameStatus = 0, HostnameMessages = [], Timestamp = 1000\<rparr>"]
    cache_hit_iff_fresh
     [of "simpleCache \<lparr>m = Some (Mapping.update ''mx.example.com''
        \<lparr>Hostname = ''mx.example.com'', HostnameStatus = 0, HostnameMessages = [], Timestamp = 1000\<rparr> Mapping.empty)\<rparr> (60 * Second)"
         70000000000 "''mx.example.com''"
         "\<lparr>Hostname = ''mx.example.com'', HostnameStatus = 0, HostnameMessages = [], Timestamp = 1000\<rparr>"]
    cache_hit_iff_fresh
     [of "simpleCache \<lparr>m = Some (Mapping.update ''mx.example.com''
        \<lparr>Hostname = ''mx.example.com'', HostnameStatus = 0, HostnameMessages = [], Timestamp = 1000\<rparr> Mapping.empty)\<rparr> (60 * Second)"
         2000 "''mx.example.org''"
         "\<lparr>Hostname = ''mx.example.com'', HostnameStatus = 0, HostnameMessages = [], Timestamp = 1000\<rparr>"]
    cache_hit_iff_fresh
     [of "simpleCache \<lparr>m = Some (Mapping.update ''mx.example.com''
        \<lparr>Hostname = ''mx.example.com'', HostnameStatus = 0, HostnameMessages = [], Timestamp = 0\<rparr> Mapping.empty)\<rparr> maxDuration"
         63929088000000000000 "''mx.example.com''"
         "\<lparr>Hostname = ''mx.example.com'', HostnameStatus = 0, HostnameMessages = [], Timestamp = 0\<rparr>"]
  by (simp add: simpleCache_def SimpleStore_GetHostnameScan_def Second_def maxDuration_def)

text \<open>
  C8, as it is written, fails on a cache backed by the zero value of \<open>SimpleStore\<close>: its
  map is \<open>nil\<close>, and the put panics where the claim has it return no error.
\<close>

theorem put_on_zero_store_counterexample:
  "backedBySimpleStore (simpleCache zeroSimpleStore (60 * Second)) \<and>
   ScanCache_PutHostnameScan (simpleCache zeroSimpleStore (60 * Second)) ''mx1.example.org''
      \<lparr>Hostname = ''mx1.example.org'', HostnameStatus = 2, HostnameMessages = [''no STARTTLS''],
        Timestamp = 1000000000\<rparr>
     = Panics ''assignment to entry in nil map''"
  by (simp add: backedBySimpleStore_def simpleCache_def zeroSimpleStore_def
        ScanCache_PutHostnameScan_def SimpleStore_PutHostnameScan_def)

text \<open>
  C8, amended: on a cache backed by the in-memory store whose map is made, as in every
  cache \<open>MakeSimpleCache\<close> returns and in every cache a put has returned,
  \<open>PutHostnameScan(h, r)\<close> returns no error and leaves such a cache, and a
  \<open>GetHostnameScan(h)\<close> that follows it at a time \<open>now\<close> with \<open>now - Timestamp\<close> of
  \<open>r\<close> at most \<open>ExpireTime\<close> returns \<open>r\<close> and no error. On a store whose map is
  \<open>nil\<close> the put panics.
\<close>

theorem put_then_get_roundtrip:
  "backedBySimpleStore (MakeSimpleCache e) \<and> mapMade (MakeSimpleCache e) \<and>
   (backedBySimpleStore c \<and> mapMade c \<longrightarrow>
      (case ScanCache_PutHostnameScan c h r of
         Panics msg \<Rightarrow> False
       | Returns (c', err) \<Rightarrow>
           err = None \<and> backedBySimpleStore c' \<and> mapMade c' \<and> ExpireTime c' = ExpireTime c \<and>
           (now - Timestamp r \<le> sint (ExpireTime c) \<longrightarrow>
              ScanCache_GetHostnameScan c' now h = (r, None)))) \<and>
   (backedBySimpleStore c \<and> \<not> mapMade c \<longrightarrow>
      ScanCache_PutHostnameScan c h r = Panics ''assignment to entry in nil map'')"
proof -
  have made: "backedBySimpleStore (MakeSimpleCache e) \<and> mapMade (MakeSimpleCache e)"
    by (simp add: backedBySimpleStore_def mapMade_def MakeSimpleCache_def)
  have roundtrip: "backedBySimpleStore c \<and> mapMade c \<longrightarrow>
      (case ScanCache_PutHostnameScan c h r of
         Panics msg \<Rightarrow> False
       | Returns (c', err) \<Rightarrow>
           err = None \<and> backedBySimpleStore c' \<and> mapMade c' \<and> ExpireTime c' = ExpireTime c \<and>
           (now - Timestamp r \<le> sint (ExpireTime c) \<longrightarrow>
              ScanCache_GetHostnameScan c' now h = (r, None)))"
  proof
    assume a: "backedBySimpleStore c \<and> mapMade c"
    then obtain entries where e: "m (self (ScanStore c)) = Some entries"
      by (auto simp: mapMade_def)
    let ?c' = "c\<lparr>ScanStore := (ScanStore c)
                 \<lparr>self := (self (ScanStore c))\<lparr>m := Some (Mapping.update h r entries)\<rparr>\<rparr>\<rparr>"
    have put: "ScanCache_PutHostnameScan c h r = Returns (?c', None)"
      using a e by (simp add: backedBySimpleStore_def ScanCache_PutHostnameScan_def
                      SimpleStore_PutHostnameScan_def)
    have b: "backedBySimpleStore ?c' \<and> mapMade ?c' \<and> ExpireTime ?c' = ExpireTime c"
      using a by (simp add: backedBySimpleStore_def mapMade_def)
    have g: "now - Timestamp r \<le> sint (ExpireTime c) \<longrightarrow>
              ScanCache_GetHostnameScan ?c' now h = (r, None)"
    proof
      assume "now - Timestamp r \<le> sint (ExpireTime c)"
      then have "Sub now (Timestamp r) \<le>s ExpireTime ?c'"
        by (simp add: within_window_sle)
      moreover have "GetHostnameScan (ScanStore ?c') (self (ScanStore ?c')) h = (r, None)"
        using a by (simp add: backedBySimpleStore_def SimpleStore_GetHostnameScan_def)
      ultimately show "ScanCache_GetHostnameScan ?c' now h = (r, None)"
        by (simp only: ScanCache_GetHostnameScan_hit)
    qed
    show "case ScanCache_PutHostnameScan c h r of
         Panics msg \<Rightarrow> False
       | Returns (c', err) \<Rightarrow>
           err = None \<and> backedBySimpleStore c' \<and> mapMade c' \<and> ExpireTime c' = ExpireTime c \<and>
           (now - Timestamp r \<le> sint (ExpireTime c) \<longrightarrow>
              ScanCache_GetHostnameScan c' now h = (r, None))"
      using b g by (simp add: put)
  qed
  have nilmap: "backedBySimpleStore c \<and> \<not> mapMade c \<longrightarrow>
      ScanCache_PutHostnameScan c h r = Panics ''assignment to entry in nil map''"
    by (simp add: backedBySimpleStore_def mapMade_def ScanCache_PutHostnameScan_def
          SimpleStore_PutHostnameScan_def)
  from made roundtrip nilmap show ?thesis by blast
qed

theorem put_then_get_roundtrip_witness:
  "backedBySimpleStore (MakeSimpleCache (60 * Second)) \<and>
   mapMade (MakeSimpleCache (60 * Second)) \<and>
   61000000000 - Timestamp \<lparr>Hostname = ''mx1.example.org'', HostnameStatus = 2, HostnameMessages = [''no STARTTLS''],
        Timestamp = 1000000000\<rparr>
     \<le> sint (ExpireTime (MakeSimpleCache (60 * Second))) \<and>
   ScanCache_PutHostnameScan (MakeSimpleCache (60 * Second)) ''mx1.example.org''
      \<lparr>Hostname = ''mx1.example.org'', HostnameStatus = 2, HostnameMessages = [''no STARTTLS''],
        Timestamp = 1000000000\<rparr>
     = Returns (simpleCache \<lparr>m = Some (Mapping.update ''mx1.example.org''
          \<lparr>Hostname = ''mx1.example.org'', HostnameStatus = 2, HostnameMessages = [''no STARTTLS''],
        Timestamp = 1000000000\<rparr> Mapping.empty)\<rparr> (60 * Second), None) \<and>
   ScanCache_GetHostnameScan
     (simpleCache \<lparr>m = Some (Mapping.update ''mx1.example.org''
          \<lparr>Hostname = ''mx1.example.org'', HostnameStatus = 2, HostnameMessages = [''no STARTTLS''],
        Timestamp = 1000000000\<rparr> Mapping.empty)\<rparr> (60 * Second))
     61000000000 ''mx1.example.org''
     = (\<lparr>Hostname = ''mx1.example.org'', HostnameStatus = 2, HostnameMessages = [''no STARTTLS''],
        Timestamp = 1000000000\<rparr>, None)"
proof -
  have p: "ScanCache_PutHostnameScan (MakeSimpleCache (60 * Second)) ''mx1.example.org''
      \<lparr>Hostname = ''mx1.example.org'', HostnameStatus = 2, HostnameMessages = [''no STARTTLS''],
        Timestamp = 1000000000\<rparr>
     = Returns (simpleCache \<lparr>m = Some (Mapping.update ''mx1.example.org''
          \<lparr>Hostname = ''mx1.example.org'', HostnameStatus = 2, HostnameMessages = [''no STARTTLS''],
        Timestamp = 1000000000\<rparr> Mapping.empty)\<rparr> (60 * Second), None)"
    by (simp add: MakeSimpleCache_def simpleCache_def ScanCache_PutHostnameScan_def
          SimpleStore_PutHostnameScan_def)
  have w: "61000000000 - Timestamp \<lparr>Hostname = ''mx1.example.org'', HostnameStatus = 2, HostnameMessages = [''no STARTTLS''],
        Timestamp = 1000000000\<rparr>
     \<le> sint (ExpireTime (MakeSimpleCache (60 * Second)))"
    by (simp add: MakeSimpleCache_def Second_def)
  show ?thesis
    using p w put_then_get_roundtrip [where e = "60 * Second"
      and c = "MakeSimpleCache (60 * Second)" and h = "''mx1.example.org''"
      and r = "\<lparr>Hostname = ''mx1.example.org'', HostnameStatus = 2,
        HostnameMessages = [''no STARTTLS''], Timestamp = 1000000000\<rparr>"
      and now = 61000000000]
    by simp
qed

section \<open>Aggregated totals\<close>

lemma HandleDomain_Attempted: "Attempted (HandleDomain r t) = Attempted t + 1"
  by (simp add: HandleDomain_def Let_def split: option.splits)

lemma HandleDomain_WithMXs:
  "WithMXs (HandleDomain r t) = WithMXs t + (if hasMXs r then 1 else 0)"
  by (simp add: HandleDomain_def hasMXs_def Let_def split: option.splits)

lemma HandleDomain_MTASTSEnforce:
  "MTASTSEnforce (HandleDomain r t) =
     MTASTSEnforce t @ (if hasMode ''enforce'' r then [Domain r] else [])"
  by (simp add: HandleDomain_def hasMXs_def hasMode_def Let_def split: option.splits)

lemma HandleDomain_MTASTSTesting:
  "MTASTSTesting (HandleDomain r t) =
     MTASTSTesting t @ (if hasMode ''testing'' r then [Domain r] else [])"
  by (simp add: HandleDomain_def hasMXs_def hasMode_def Let_def split: option.splits)

lemma handleAll_Attempted:
  "Attempted (handleAll rs t) = Attempted t + of_nat (length rs)"
  unfolding handleAll_def
  by (induction rs arbitrary: t) (simp_all add: HandleDomain_Attempted)

lemma handleAll_WithMXs:
  "WithMXs (handleAll rs t) = WithMXs t + of_nat (length (filter hasMXs rs))"
  unfolding handleAll_def
  by (induction rs arbitrary: t) (simp_all add: HandleDomain_WithMXs)

lemma handleAll_MTASTSEnforce:
  "MTASTSEnforce (handleAll rs t) =
     MTASTSEnforce t @ map Domain (filter (hasMode ''enforce'') rs)"
  unfolding handleAll_def
  by (induction rs arbitrary: t) (simp_all add: HandleDomain_MTASTSEnforce)

lemma handleAll_MTASTSTesting:
  "MTASTSTesting (handleAll rs t) =
     MTASTSTesting t @ map Domain (filter (hasMode ''testing'') rs)"
  unfolding handleAll_def
  by (induction rs arbitrary: t) (simp_all add: HandleDomain_MTASTSTesting)

lemma modes_within_hasMXs:
  "length (filter (hasMode ''enforce'') rs) + length (filter (hasMode ''testing'') rs)
     \<le> length (filter hasMXs rs)"
  by (induction rs) (auto simp: hasMode_def split: option.splits)

lemma sint_of_nat_64:
  "n < 2^63 \<Longrightarrow> sint (of_nat n :: 64 word) = int n"
  using sint_word_of_int_64[of "int n"] by simp

text \<open>
  C9: from the zero totals, after the \<open>HandleDomain\<close> calls for the results \<open>rs\<close>, fewer
  than \<open>2^63\<close> of them: \<open>Attempted\<close> is the number of calls; \<open>WithMXs\<close> is the number
  of results with hostname results, so it is at most \<open>Attempted\<close>; \<open>MTASTSEnforce\<close>
  (\<open>MTASTSTesting\<close>) holds, in order, the domains of the results with hostname results and
  an MTA-STS result of mode "enforce" ("testing"); and the two lists together are no longer
  than \<open>WithMXs\<close>.
\<close>

theorem totals_after_calls:
  assumes "length rs < 2^63"
  shows "sint (Attempted (handleAll rs zeroDomainTotals)) = int (length rs) \<and>
         sint (WithMXs (handleAll rs zeroDomainTotals)) = int (length (filter hasMXs rs)) \<and>
         WithMXs (handleAll rs zeroDomainTotals) \<le>s Attempted (handleAll rs zeroDomainTotals) \<and>
         MTASTSEnforce (handleAll rs zeroDomainTotals) = map Domain (filter (hasMode ''enforce'') rs) \<and>
         MTASTSTesting (handleAll rs zeroDomainTotals) = map Domain (filter (hasMode ''testing'') rs) \<and>
         int (length (MTASTSEnforce (handleAll rs zeroDomainTotals)) +
              length (MTASTSTesting (handleAll rs zeroDomainTotals)))
           \<le> sint (WithMXs (handleAll rs zeroDomainTotals))"
proof -
  have le: "length (filter hasMXs rs) \<le> length rs" by simp
  then have lt: "length (filter hasMXs rs) < 2^63" using assms by linarith
  have a: "sint (Attempted (handleAll rs zeroDomainTotals)) = int (length rs)"
    using assms by (simp add: handleAll_Attempted zeroDomainTotals_def sint_of_nat_64)
  have w: "sint (WithMXs (handleAll rs zeroDomainTotals)) = int (length (filter hasMXs rs))"
    using lt by (simp add: handleAll_WithMXs zeroDomainTotals_def sint_of_nat_64)
  have e: "MTASTSEnforce (handleAll rs zeroDomainTotals) = map Domain (filter (hasMode ''enforce'') rs)"
    by (simp add: handleAll_MTASTSEnforce zeroDomainTotals_def)
  have t: "MTASTSTesting (handleAll rs zeroDomainTotals) = map Domain (filter (hasMode ''testing'') rs)"
    by (simp add: handleAll_MTASTSTesting zeroDomainTotals_def)
  have o: "WithMXs (handleAll rs zeroDomainTotals) \<le>s Attempted (handleAll rs zeroDomainTotals)"
    using le by (simp only: word_sle_eq a w of_nat_le_iff)
  have l: "int (length (MTASTSEnforce (handleAll rs zeroDomainTotals)) +
              length (MTASTSTesting (handleAll rs zeroDomainTotals)))
           \<le> sint (WithMXs (handleAll rs zeroDomainTotals))"
    using modes_within_hasMXs[of rs] by (simp only: e t w length_map of_nat_le_iff)
  from a w o e t l show ?thesis by blast
qed

theorem totals_after_calls_witness:
  "length
     [\<lparr>Domain = ''nomx.example'', HostnameResults = Mapping.empty,
       MTASTSResult = Some \<lparr>Mode = ''enforce'', MXs = [], PolicyStatus = 0\<rparr>, DomainStatus = 5\<rparr>,
      \<lparr>Domain = ''enforce.example'',
       HostnameResults = Mapping.update ''mx.enforce.example'' zeroHostnameResult Mapping.empty,
       MTASTSResult = Some \<lparr>Mode = ''enforce'', MXs = [''mx.enforce.example''], PolicyStatus = 0\<rparr>,
       DomainStatus = 0\<rparr>,
      \<lparr>Domain = ''testing.example'',
       HostnameResults = Mapping.update ''mx.testing.example'' zeroHostnameResult Mapping.empty,
       MTASTSResult = Some \<lparr>Mode = ''testing'', MXs = [''mx.testing.example''], PolicyStatus = 0\<rparr>,
       DomainStatus = 0\<rparr>,
      \<lparr>Domain = ''plain.example'',
       HostnameResults = Mapping.update ''mx.plain.example'' zeroHostnameResult Mapping.empty,
       MTASTSResult = None, DomainStatus = 0\<rparr>] < 2^63 \<and>
   sint (Attempted (handleAll
     [\<lparr>Domain = ''nomx.example'', HostnameResults = Mapping.empty,
       MTASTSResult = Some \<lparr>Mode = ''enforce'', MXs = [], PolicyStatus = 0\<rparr>, DomainStatus = 5\<rparr>,
      \<lparr>Domain = ''enforce.example'',
       HostnameResults = Mapping.update ''mx.enforce.example'' zeroHostnameResult Mapping.empty,
       MTASTSResult = Some \<lparr>Mode = ''enforce'', MXs = [''mx.enforce.example''], PolicyStatus = 0\<rparr>,
       DomainStatus = 0\<rparr>,
      \<lparr>Domain = ''testing.example'',
       HostnameResults = Mapping.update ''mx.testing.example'' zeroHostnameResult Mapping.empty,
       MTASTSResult = Some \<lparr>Mode = ''testing'', MXs = [''mx.testing.example''], PolicyStatus = 0\<rparr>,
       DomainStatus = 0\<rparr>,
      \<lparr>Domain = ''plain.example'',
       HostnameResults = Mapping.update ''mx.plain.example'' zeroHostnameResult Mapping.empty,
       MTASTSResult = None, DomainStatus = 0\<rparr>] zeroDomainTotals)) = 4 \<and>
   sint (WithMXs (handleAll
     [\<lparr>Domain = ''nomx.example'', HostnameResults = Mapping.empty,
       MTASTSResult = Some \<lparr>Mode = ''enforce'', MXs = [], PolicyStatus = 0\<rparr>, DomainStatus = 5\<rparr>,
      \<lparr>Domain = ''enforce.example'',
       HostnameResults = Mapping.update ''mx.enforce.example'' zeroHostnameResult Mapping.empty,
       MTASTSResult = Some \<lparr>Mode = ''enforce'', MXs = [''mx.enforce.example''], PolicyStatus = 0\<rparr>,
       DomainStatus = 0\<rparr>,
      \<lparr>Domain = ''testing.example'',
       HostnameResults = Mapping.update ''mx.testing.example'' zeroHostnameResult Mapping.empty,
       MTASTSResult = Some \<lparr>Mode = ''testing'', MXs = [''mx.testing.example''], PolicyStatus = 0\<rparr>,
       DomainStatus = 0\<rparr>,
      \<lparr>Domain = ''plain.example'',
       HostnameResults = Mapping.update ''mx.plain.example'' zeroHostnameResult Mapping.empty,
       MTASTSResult = None, DomainStatus = 0\<rparr>] zeroDomainTotals)) = 3 \<and>
   MTASTSEnforce (handleAll
     [\<lparr>Domain = ''nomx.example'', HostnameResults = Mapping.empty,
       MTASTSResult = Some \<lparr>Mode = ''enforce'', MXs = [], PolicyStatus = 0\<rparr>, DomainStatus = 5\<rparr>,
      \<lparr>Domain = ''enforce.example'',
       HostnameResults = Mapping.update ''mx.enforce.example'' zeroHostnameResult Mapping.empty,
       MTASTSResult = Some \<lparr>Mode = ''enforce'', MXs = [''mx.enforce.example''], PolicyStatus = 0\<rparr>,
       DomainStatus = 0\<rparr>,
      \<lparr>Domain = ''testing.example'',
       HostnameResults = Mapping.update ''mx.testing.example'' zeroHostnameResult Mapping.empty,
       MTASTSResult = Some \<lparr>Mode = ''testing'', MXs = [''mx.testing.example''], PolicyStatus = 0\<rparr>,
       DomainStatus = 0\<rparr>,
      \<lparr>Domain = ''plain.example'',
       HostnameResults = Mapping.update ''mx.plain.example'' zeroHostnameResult Mapping.empty,
       MTASTSResult = None, DomainStatus = 0\<rparr>] zeroDomainTotals) = [''enforce.example''] \<and>
   MTASTSTesting (handleAll
     [\<lparr>Domain = ''nomx.example'', HostnameResults = Mapping.empty,
       MTASTSResult = Some \<lparr>Mode = ''enforce'', MXs = [], PolicyStatus = 0\<rparr>, DomainStatus = 5\<rparr>,
      \<lparr>Domain = ''enforce.example'',
       HostnameResults = Mapping.update ''mx.enforce.example'' zeroHostnameResult Mapping.empty,
       MTASTSResult = Some \<lparr>Mode = ''enforce'', MXs = [''mx.enforce.example''], PolicyStatus = 0\<rparr>,
       DomainStatus = 0\<rparr>,
      \<lparr>Domain = ''testing.example'',
       HostnameResults = Mapping.update ''mx.testing.example'' zeroHostnameResult Mapping.empty,
       MTASTSResult = Some \<lparr>Mode = ''testing'', MXs = [''mx.testing.example''], PolicyStatus = 0\<rparr>,
       DomainStatus = 0\<rparr>,
      \<lparr>Domain = ''plain.example'',
       HostnameResults = Mapping.update ''mx.plain.example'' zeroHostnameResult Mapping.empty,
       MTASTSResult = None, DomainStatus = 0\<rparr>] zeroDomainTotals) = [''testing.example'']"
proof -
  let ?rs = "[\<lparr>Domain = ''nomx.example'', HostnameResults = Mapping.empty,
       MTASTSResult = Some \<lparr>Mode = ''enforce'', MXs = [], PolicyStatus = 0\<rparr>, DomainStatus = 5\<rparr>,
      \<lparr>Domain = ''enforce.example'',
       HostnameResults = Mapping.update ''mx.enforce.example'' zeroHostnameResult Mapping.empty,
       MTASTSResult = Some \<lparr>Mode = ''enforce'', MXs = [''mx.enforce.example''], PolicyStatus = 0\<rparr>,
       DomainStatus = 0\<rparr>,
      \<lparr>Domain = ''testing.example'',
       HostnameResults = Mapping.update ''mx.testing.example'' zeroHostnameResult Mapping.empty,
       MTASTSResult = Some \<lparr>Mode = ''testing'', MXs = [''mx.testing.example''], PolicyStatus = 0\<rparr>,
       DomainStatus = 0\<rparr>,
      \<lparr>Domain = ''plain.example'',
       HostnameResults = Mapping.update ''mx.plain.example'' zeroHostnameResult Mapping.empty,
       MTASTSResult = None, DomainStatus = 0\<rparr>]"
  have h: "length ?rs < 2^63" by simp
  show ?thesis
    using h totals_after_calls [OF h]
    by (simp add: hasMXs_def hasMode_def)
qed

section \<open>The size of the worker pool\<close>

lemma lt10_cases:
  "(k::nat) < 10 \<Longrightarrow> k = 0 \<or> k = 1 \<or> k = 2 \<or> k = 3 \<or> k = 4 \<or> k = 5 \<or> k = 6 \<or> k = 7 \<or> k = 8 \<or> k = 9"
  by arith

lemma of_char_digitChar: "k < 10 \<Longrightarrow> (of_char (digitChar k) :: nat) = 48 + k"
  using lt10_cases[of k] by (auto simp: digitChar_def)

lemma isDigit_digitChar: "k < 10 \<Longrightarrow> isDigit (digitChar k)"
  by (simp add: isDigit_def of_char_digitChar)

lemma decimal_digits: "list_all isDigit (decimal n)"
proof (induction n rule: decimal.induct)
  case (1 n)
  show ?case
  proof (cases "n < 10")
    case True
    then show ?thesis by (subst decimal.simps) (simp add: isDigit_digitChar)
  next
    case False
    then show ?thesis using 1 by (subst decimal.simps) (simp add: isDigit_digitChar)
  qed
qed

lemma decimal_nonempty: "decimal n \<noteq> []"
  by (subst decimal.simps) simp

lemma digitsValue_snoc: "digitsValue (ds @ [c]) = digitsValue ds * 10 + (of_char c - 48)"
  by (simp add: digitsValue_def)

lemma digitsValue_decimal: "digitsValue (decimal n) = n"
proof (induction n rule: decimal.induct)
  case (1 n)
  show ?case
  proof (cases "n < 10")
    case True
    then show ?thesis by (subst decimal.simps) (simp add: digitsValue_def of_char_digitChar)
  next
    case False
    then have "digitsValue (decimal n) = digitsValue (decimal (n div 10)) * 10 + n mod 10"
      by (subst decimal.simps) (simp add: digitsValue_snoc of_char_digitChar)
    then show ?thesis using 1 False by simp
  qed
qed

lemma isDigit_not_sign: "isDigit c \<Longrightarrow> c \<noteq> CHR ''-'' \<and> c \<noteq> CHR ''+''"
  by (auto simp: isDigit_def)

lemma Atoi_digits:
  assumes "ds \<noteq> []" "list_all isDigit ds"
  shows "Atoi ds = (if int (digitsValue ds) \<le> 9223372036854775807 then (int (digitsValue ds), None)
                    else (9223372036854775807, Some (Err ''value out of range'')))"
proof -
  obtain c cs where ds: "ds = c # cs" using assms(1) by (cases ds) auto
  then have "isDigit c" using assms(2) by simp
  then have "c \<noteq> CHR ''-''" "c \<noteq> CHR ''+''" using isDigit_not_sign by auto
  then show ?thesis using assms ds by (simp add: Atoi_def)
qed

lemma Atoi_decimal:
  "n < 2^63 \<Longrightarrow> Atoi (decimal n) = (int n, None)"
  by (simp add: Atoi_digits decimal_nonempty decimal_digits digitsValue_decimal)

lemma Atoi_syntax:
  "s = [] \<or> (\<exists>c\<in>set s. \<not> isDigit c \<and> c \<noteq> CHR ''-'' \<and> c \<noteq> CHR ''+'') \<Longrightarrow>
   Atoi s = (0, Some (Err ''invalid syntax''))"
proof (cases s)
  case Nil
  then show ?thesis by (simp add: Atoi_def)
next
  case (Cons x xs)
  assume "s = [] \<or> (\<exists>c\<in>set s. \<not> isDigit c \<and> c \<noteq> CHR ''-'' \<and> c \<noteq> CHR ''+'')"
  then obtain c where c: "c \<in> set s" "\<not> isDigit c" "c \<noteq> CHR ''-''" "c \<noteq> CHR ''+''"
    using Cons by auto
  show ?thesis
  proof (cases "x = CHR ''-'' \<or> x = CHR ''+''")
    case True
    then have "c \<in> set xs" using c Cons by auto
    then have "\<not> list_all isDigit xs" using c(2) by (auto simp: list_all_iff)
    then show ?thesis using True Cons by (auto simp: Atoi_def)
  next
    case False
    have "\<not> list_all isDigit s" using c by (auto simp: list_all_iff)
    then show ?thesis using False Cons by (auto simp: Atoi_def)
  qed
qed



lemma Atoi_minus_digits:
  assumes "ds \<noteq> []" "list_all isDigit ds"
  shows "Atoi (CHR ''-'' # ds) =
           (if int (digitsValue ds) \<le> 9223372036854775808 then (- int (digitsValue ds), None)
            else (- 9223372036854775808, Some (Err ''value out of range'')))"
  using assms by (simp add: Atoi_def)

lemma poolSize_cases:
  "poolSize env =
     (if snd (Atoi (Getenv env ''CONNECTION_POOL_SIZE'')) \<noteq> None \<or>
         fst (Atoi (Getenv env ''CONNECTION_POOL_SIZE'')) \<le> 0
      then 16 else fst (Atoi (Getenv env ''CONNECTION_POOL_SIZE'')))"
  by (simp add: poolSize_def defaultPoolSize_def split: prod.splits)

text \<open>
  C6: the pool size is computed once, from the environment at the start of \<open>CheckCSV\<close>.
  It is 16 when the variable is unset, when its value is not an integer numeral (empty, or
  with a character that is neither a digit nor a sign), when the numeral is zero, negative
  or too large for an \<open>int\<close>; the decimal numeral of a positive \<open>n\<close> below \<open>2^63\<close> gives
  \<open>n\<close>. In terms of \<open>strconv.Atoi\<close>: 16 when it returns an error or a value that is
  not positive, and its value otherwise.
\<close>

theorem pool_size_default:
  "(env ''CONNECTION_POOL_SIZE'' = None \<longrightarrow> poolSize env = 16) \<and>
   (snd (Atoi (Getenv env ''CONNECTION_POOL_SIZE'')) \<noteq> None \<longrightarrow> poolSize env = 16) \<and>
   (fst (Atoi (Getenv env ''CONNECTION_POOL_SIZE'')) \<le> 0 \<longrightarrow> poolSize env = 16) \<and>
   (snd (Atoi (Getenv env ''CONNECTION_POOL_SIZE'')) = None \<and>
    0 < fst (Atoi (Getenv env ''CONNECTION_POOL_SIZE'')) \<longrightarrow>
      poolSize env = fst (Atoi (Getenv env ''CONNECTION_POOL_SIZE''))) \<and>
   (env ''CONNECTION_POOL_SIZE'' = Some v \<and>
    (v = [] \<or> (\<exists>c\<in>set v. \<not> isDigit c \<and> c \<noteq> CHR ''-'' \<and> c \<noteq> CHR ''+'')) \<longrightarrow>
      poolSize env = 16) \<and>
   (env ''CONNECTION_POOL_SIZE'' = Some (decimal n) \<and> 0 < n \<and> n < 2^63 \<longrightarrow>
      poolSize env = int n) \<and>
   (env ''CONNECTION_POOL_SIZE'' = Some (decimal 0) \<longrightarrow> poolSize env = 16) \<and>
   (env ''CONNECTION_POOL_SIZE'' = Some (CHR ''-'' # decimal n) \<longrightarrow> poolSize env = 16) \<and>
   (env ''CONNECTION_POOL_SIZE'' = Some (decimal n) \<and> 2^63 \<le> n \<longrightarrow> poolSize env = 16) \<and>
   0 < poolSize env"
proof -
  let ?K = "''CONNECTION_POOL_SIZE''"
  have unset: "env ?K = None \<longrightarrow> poolSize env = 16"
    by (simp add: poolSize_cases Getenv_def Atoi_def)
  have err: "snd (Atoi (Getenv env ?K)) \<noteq> None \<longrightarrow> poolSize env = 16"
    by (simp add: poolSize_cases)
  have nonpos: "fst (Atoi (Getenv env ?K)) \<le> 0 \<longrightarrow> poolSize env = 16"
    by (simp add: poolSize_cases)
  have valid: "snd (Atoi (Getenv env ?K)) = None \<and> 0 < fst (Atoi (Getenv env ?K)) \<longrightarrow>
      poolSize env = fst (Atoi (Getenv env ?K))"
    by (simp add: poolSize_cases)
  have invalid: "env ?K = Some v \<and>
    (v = [] \<or> (\<exists>c\<in>set v. \<not> isDigit c \<and> c \<noteq> CHR ''-'' \<and> c \<noteq> CHR ''+'')) \<longrightarrow>
      poolSize env = 16"
  proof
    assume a: "env ?K = Some v \<and>
      (v = [] \<or> (\<exists>c\<in>set v. \<not> isDigit c \<and> c \<noteq> CHR ''-'' \<and> c \<noteq> CHR ''+''))"
    then have "Atoi v = (0, Some (Err ''invalid syntax''))" by (intro Atoi_syntax) simp
    then show "poolSize env = 16" using a by (simp add: poolSize_cases Getenv_def)
  qed
  have given: "env ?K = Some (decimal n) \<and> 0 < n \<and> n < 2^63 \<longrightarrow> poolSize env = int n"
    by (simp add: poolSize_cases Getenv_def Atoi_decimal)
  have zero: "env ?K = Some (decimal 0) \<longrightarrow> poolSize env = 16"
    using Atoi_decimal[of 0] by (simp add: poolSize_cases Getenv_def)
  have minus: "env ?K = Some (CHR ''-'' # decimal n) \<longrightarrow> poolSize env = 16"
    by (simp add: poolSize_cases Getenv_def Atoi_minus_digits decimal_nonempty decimal_digits)
  have big: "env ?K = Some (decimal n) \<and> 2^63 \<le> n \<longrightarrow> poolSize env = 16"
    by (simp add: poolSize_cases Getenv_def Atoi_digits decimal_nonempty decimal_digits
          digitsValue_decimal)
  have pos: "0 < poolSize env"
    by (simp add: poolSize_cases)
  from unset err nonpos valid invalid given zero minus big pos show ?thesis by blast
qed

theorem pool_size_default_witness:
  "poolSize Map.empty = 16 \<and>
   poolSize [''CONNECTION_POOL_SIZE'' \<mapsto> ''sixteen''] = 16 \<and>
   poolSize [''CONNECTION_POOL_SIZE'' \<mapsto> ''0''] = 16 \<and>
   poolSize [''CONNECTION_POOL_SIZE'' \<mapsto> ''-4''] = 16 \<and>
   poolSize [''CONNECTION_POOL_SIZE'' \<mapsto> ''2''] = 2"
proof -
  have d2: "decimal 2 = ''2''" by (simp add: decimal.simps digitChar_def)
  have d0: "decimal 0 = ''0''" by (simp add: decimal.simps digitChar_def)
  have d4: "decimal 4 = ''4''" by (simp add: decimal.simps digitChar_def)
  have nd: "\<not> isDigit CHR ''s''" by (simp add: isDigit_def)
  show ?thesis
    using pool_size_default [of Map.empty "[]" 0]
      pool_size_default [of "[''CONNECTION_POOL_SIZE'' \<mapsto> ''sixteen'']" "''sixteen''" 0]
      pool_size_default [of "[''CONNECTION_POOL_SIZE'' \<mapsto> ''0'']" "[]" 0]
      pool_size_default [of "[''CONNECTION_POOL_SIZE'' \<mapsto> ''-4'']" "[]" 4]
      pool_size_default [of "[''CONNECTION_POOL_SIZE'' \<mapsto> ''2'']" "[]" 2]
      d2 d0 d4 nd
    by simp
qed

section \<open>Reading the input\<close>

lemma readLoop_rows:
  "list_all (hasColumn col) rows \<Longrightarrow>
   readLoop (map (\<lambda>data. (data, None)) rows @ tail) col sent =
   readLoop tail col (sent @ domainsOf col rows)"
proof (induction rows arbitrary: sent)
  case Nil
  then show ?case by (simp add: domainsOf_def)
next
  case (Cons data rows)
  then have hc: "hasColumn col data" and rest: "list_all (hasColumn col) rows" by simp_all
  show ?case
  proof (cases "data = []")
    case True
    then show ?thesis using Cons.IH[OF rest] by (simp add: domainsOf_def)
  next
    case False
    then have "0 \<le> col \<and> col < int (length data)" using hc by (simp add: hasColumn_def)
    then show ?thesis using False Cons.IH[OF rest, of "sent @ [data ! nat col]"]
      by (simp add: domainsOf_def)
  qed
qed

text \<open>
  C4: in the reading loop of \<open>CheckCSV\<close>, a \<open>Read\<close> that returns \<open>io.EOF\<close> ends the
  loop and closes \<open>work\<close>; a \<open>Read\<close> that returns any other error ends the process
  through \<open>log.Fatal\<close>, whatever rows follow. So over rows that have the domain column:
  at the end of the input \<open>work\<close> is closed after the domains of all rows were sent, and
  at another error the run is aborted after the domains of the rows before it, and no row
  after it is read.
\<close>

theorem read_loop_eof_or_fatal:
  "readLoop [] col sent = WorkClosed sent \<and>
   readLoop ((x, Some EOF) # rest) col sent = WorkClosed sent \<and>
   (e \<noteq> EOF \<longrightarrow> readLoop ((x, Some e) # rest) col sent = Fatal e sent) \<and>
   (list_all (hasColumn col) rows \<longrightarrow>
      readLoop (map (\<lambda>data. (data, None)) rows) col [] = WorkClosed (domainsOf col rows) \<and>
      readLoop (map (\<lambda>data. (data, None)) rows @ (x, Some EOF) # rest) col []
        = WorkClosed (domainsOf col rows) \<and>
      (e \<noteq> EOF \<longrightarrow>
         readLoop (map (\<lambda>data. (data, None)) rows @ (x, Some e) # rest) col []
           = Fatal e (domainsOf col rows)))"
proof -
  have a: "readLoop [] col sent = WorkClosed sent"
    by simp
  have b: "readLoop ((x, Some EOF) # rest) col sent = WorkClosed sent"
    by simp
  have c: "e \<noteq> EOF \<longrightarrow> readLoop ((x, Some e) # rest) col sent = Fatal e sent"
    by simp
  have d: "list_all (hasColumn col) rows \<longrightarrow>
      readLoop (map (\<lambda>data. (data, None)) rows) col [] = WorkClosed (domainsOf col rows) \<and>
      readLoop (map (\<lambda>data. (data, None)) rows @ (x, Some EOF) # rest) col []
        = WorkClosed (domainsOf col rows) \<and>
      (e \<noteq> EOF \<longrightarrow>
         readLoop (map (\<lambda>data. (data, None)) rows @ (x, Some e) # rest) col []
           = Fatal e (domainsOf col rows))"
  proof
    assume h: "list_all (hasColumn col) rows"
    show "readLoop (map (\<lambda>data. (data, None)) rows) col [] = WorkClosed (domainsOf col rows) \<and>
      readLoop (map (\<lambda>data. (data, None)) rows @ (x, Some EOF) # rest) col []
        = WorkClosed (domainsOf col rows) \<and>
      (e \<noteq> EOF \<longrightarrow>
         readLoop (map (\<lambda>data. (data, None)) rows @ (x, Some e) # rest) col []
           = Fatal e (domainsOf col rows))"
      using readLoop_rows[OF h, of "[]" "[]"]
        readLoop_rows[OF h, of "(x, Some EOF) # rest" "[]"]
        readLoop_rows[OF h, of "(x, Some e) # rest" "[]"]
      by simp
  qed
  from a b c d show ?thesis by blast
qed

theorem read_loop_eof_or_fatal_witness:
  "list_all (hasColumn 0) [[''example.com'', ''1''], [''eff.org'', ''2'']] \<and>
   readLoop [([''example.com'', ''1''], None), ([''eff.org'', ''2''], None), ([], Some EOF)] 0 []
     = WorkClosed [''example.com'', ''eff.org''] \<and>
   readLoop [([''example.com'', ''1''], None), ([''eff.org'', ''2''], None),
             ([], Some (Err ''wrong number of fields'')), ([''later.org'', ''4''], None)] 0 []
     = Fatal (Err ''wrong number of fields'') [''example.com'', ''eff.org'']"
proof -
  have h: "list_all (hasColumn 0) [[''example.com'', ''1''], [''eff.org'', ''2'']]"
    by (simp add: hasColumn_def)
  show ?thesis
    using h
      read_loop_eof_or_fatal [of 0 "[]" "[]" "[]" "Err ''wrong number of fields''"
        "[[''example.com'', ''1''], [''eff.org'', ''2'']]"]
      read_loop_eof_or_fatal [of 0 "[]" "[]" "[([''later.org'', ''4''], None)]"
        "Err ''wrong number of fields''" "[[''example.com'', ''1''], [''eff.org'', ''2'']]"]
    by (simp add: domainsOf_def)
qed

section \<open>The policy list check\<close>

text \<open>
  C10: \<open>PolicyListCheck\<close> returns a result, named after the check, by the first of these
  that applies: success when the policy list has the domain; success when the store holds
  the domain in the state "added"; a warning that the domain is queued when the store holds
  it in the state "queued"; a failure that the request waits on email validation when the
  store holds it in the state "unvalidated"; and otherwise a failure that the domain is
  not on the policy list.
\<close>

theorem policy_list_check_precedence:
  "(HasDomain list (DomainName d) \<longrightarrow>
      PolicyListCheck P d store list =
        Result_Success \<lparr>Name = P, Status = 0, Messages = []\<rparr> \<and>
      Status (PolicyListCheck P d store list) = Success) \<and>
   (\<not> HasDomain list (DomainName d) \<and>
    snd (GetDomain store (DomainName d) StateEnforce) = None \<longrightarrow>
      PolicyListCheck P d store list =
        Result_Success \<lparr>Name = P, Status = 0, Messages = []\<rparr> \<and>
      Status (PolicyListCheck P d store list) = Success) \<and>
   (\<not> HasDomain list (DomainName d) \<and>
    snd (GetDomain store (DomainName d) StateEnforce) \<noteq> None \<and>
    snd (GetDomain store (DomainName d) StateTesting) = None \<longrightarrow>
      PolicyListCheck P d store list =
        Result_Warning \<lparr>Name = P, Status = 0, Messages = []\<rparr>
          (''Domain '' @ DomainName d @ '' is queued to be added to the policy list.'') \<and>
      Status (PolicyListCheck P d store list) = Warning) \<and>
   (\<not> HasDomain list (DomainName d) \<and>
    snd (GetDomain store (DomainName d) StateEnforce) \<noteq> None \<and>
    snd (GetDomain store (DomainName d) StateTesting) \<noteq> None \<and>
    snd (GetDomain store (DomainName d) StateUnconfirmed) = None \<longrightarrow>
      PolicyListCheck P d store list =
        Result_Failure \<lparr>Name = P, Status = 0, Messages = []\<rparr>
          (''The policy addition request for '' @ DomainName d @
           '' is waiting on email validation'') \<and>
      Status (PolicyListCheck P d store list) = Failure) \<and>
   (\<not> HasDomain list (DomainName d) \<and>
    snd (GetDomain store (DomainName d) StateEnforce) \<noteq> None \<and>
    snd (GetDomain store (DomainName d) StateTesting) \<noteq> None \<and>
    snd (GetDomain store (DomainName d) StateUnconfirmed) \<noteq> None \<longrightarrow>
      PolicyListCheck P d store list =
        Result_Failure \<lparr>Name = P, Status = 0, Messages = []\<rparr>
          (''Domain '' @ DomainName d @ '' is not on the policy list.'') \<and>
      Status (PolicyListCheck P d store list) = Failure) \<and>
   Name (PolicyListCheck P d store list) = P"
  by (simp add: PolicyListCheck_def Let_def Result_Success_def Result_Warning_def
        Result_Failure_def)

theorem policy_list_check_precedence_witness:
  "Status (PolicyListCheck ''policylist''
      \<lparr>DomainName = ''eff.org'', Email = [], DomainMXs = [], MTASTSMode = [], State = [],
       LastUpdated = 0, TestingStart = 0, QueueWeeks = 0\<rparr>
      \<lparr>GetDomain = (\<lambda>name state.
         (\<lparr>DomainName = name, Email = [], DomainMXs = [], MTASTSMode = [], State = state,
           LastUpdated = 0, TestingStart = 0, QueueWeeks = 0\<rparr>,
          if name = ''added.example'' \<and> state = ''added'' \<or>
             name = ''queued.example'' \<and> state = ''queued'' \<or>
             name = ''pending.example'' \<and> state = ''unvalidated''
          then None else Some (Err ''not found'')))\<rparr>
      \<lparr>HasDomain = (\<lambda>name. name = ''eff.org'')\<rparr>) = Success \<and>
   Status (PolicyListCheck ''policylist''
      \<lparr>DomainName = ''added.example'', Email = [], DomainMXs = [], MTASTSMode = [], State = [],
       LastUpdated = 0, TestingStart = 0, QueueWeeks = 0\<rparr>
      \<lparr>GetDomain = (\<lambda>name state.
         (\<lparr>DomainName = name, Email = [], DomainMXs = [], MTASTSMode = [], State = state,
           LastUpdated = 0, TestingStart = 0, QueueWeeks = 0\<rparr>,
          if name = ''added.example'' \<and> state = ''added'' \<or>
             name = ''queued.example'' \<and> state = ''queued'' \<or>
             name = ''pending.example'' \<and> state = ''unvalidated''
          then None else Some (Err ''not found'')))\<rparr>
      \<lparr>HasDomain = (\<lambda>name. name = ''eff.org'')\<rparr>) = Success \<and>
   Status (PolicyListCheck ''policylist''
      \<lparr>DomainName = ''queued.example'', Email = [], DomainMXs = [], MTASTSMode = [], State = [],
       LastUpdated = 0, TestingStart = 0, QueueWeeks = 0\<rparr>
      \<lparr>GetDomain = (\<lambda>name state.
         (\<lparr>DomainName = name, Email = [], DomainMXs = [], MTASTSMode = [], State = state,
           LastUpdated = 0, TestingStart = 0, QueueWeeks = 0\<rparr>,
          if name = ''added.example'' \<and> state = ''added'' \<or>
             name = ''queued.example'' \<and> state = ''queued'' \<or>
             name = ''pending.example'' \<and> state = ''unvalidated''
          then None else Some (Err ''not found'')))\<rparr>
      \<lparr>HasDomain = (\<lambda>name. name = ''eff.org'')\<rparr>) = Warning \<and>
   PolicyListCheck ''policylist''
      \<lparr>DomainName = ''queued.example'', Email = [], DomainMXs = [], MTASTSMode = [], State = [],
       LastUpdated = 0, TestingStart = 0, QueueWeeks = 0\<rparr>
      \<lparr>GetDomain = (\<lambda>name state.
         (\<lparr>DomainName = name, Email = [], DomainMXs = [], MTASTSMode = [], State = state,
           LastUpdated = 0, TestingStart = 0, QueueWeeks = 0\<rparr>,
          if name = ''added.example'' \<and> state = ''added'' \<or>
             name = ''queued.example'' \<and> state = ''queued'' \<or>
             name = ''pending.example'' \<and> state = ''unvalidated''
          then None else Some (Err ''not found'')))\<rparr>
      \<lparr>HasDomain = (\<lambda>name. name = ''eff.org'')\<rparr>
     = Result_Warning \<lparr>Name = ''policylist'', Status = 0, Messages = []\<rparr>
         ''Domain queued.example is queued to be added to the policy list.'' \<and>
   Status (PolicyListCheck ''policylist''
      \<lparr>DomainName = ''pending.example'', Email = [], DomainMXs = [], MTASTSMode = [], State = [],
       LastUpdated = 0, TestingStart = 0, QueueWeeks = 0\<rparr>
      \<lparr>GetDomain = (\<lambda>name state.
         (\<lparr>DomainName = name, Email = [], DomainMXs = [], MTASTSMode = [], State = state,
           LastUpdated = 0, TestingStart = 0, QueueWeeks = 0\<rparr>,
          if name = ''added.example'' \<and> state = ''added'' \<or>
             name = ''queued.example'' \<and> state = ''queued'' \<or>
             name = ''pending.example'' \<and> state = ''unvalidated''
          then None else Some (Err ''not found'')))\<rparr>
      \<lparr>HasDomain = (\<lambda>name. name = ''eff.org'')\<rparr>) = Failure \<and>
   PolicyListCheck ''policylist''
      \<lparr>DomainName = ''pending.example'', Email = [], DomainMXs = [], MTASTSMode = [], State = [],
       LastUpdated = 0, TestingStart = 0, QueueWeeks = 0\<rparr>
      \<lparr>GetDomain = (\<lambda>name state.
         (\<lparr>DomainName = name, Email = [], DomainMXs = [], MTASTSMode = [], State = state,
           LastUpdated = 0, TestingStart = 0, QueueWeeks = 0\<rparr>,
          if name = ''added.example'' \<and> state = ''added'' \<or>
             name = ''queued.example'' \<and> state = ''queued'' \<or>
             name = ''pending.example'' \<and> state = ''unvalidated''
          then None else Some (Err ''not found'')))\<rparr>
      \<lparr>HasDomain = (\<lambda>name. name = ''eff.org'')\<rparr>
     = Result_Failure \<lparr>Name = ''policylist'', Status = 0, Messages = []\<rparr>
         ''The policy addition request for pending.example is waiting on email validation'' \<and>
   Status (PolicyListCheck ''policylist''
      \<lparr>DomainName = ''other.example'', Email = [], DomainMXs = [], MTASTSMode = [], State = [],
       LastUpdated = 0, TestingStart = 0, QueueWeeks = 0\<rparr>
      \<lparr>GetDomain = (\<lambda>name state.
         (\<lparr>DomainName = name, Email = [], DomainMXs = [], MTASTSMode = [], State = state,
           LastUpdated = 0, TestingStart = 0, QueueWeeks = 0\<rparr>,
          if name = ''added.example'' \<and> state = ''added'' \<or>
             name = ''queued.example'' \<and> state = ''queued'' \<or>
             name = ''pending.example'' \<and> state = ''unvalidated''
          then None else Some (Err ''not found'')))\<rparr>
      \<lparr>HasDomain = (\<lambda>name. name = ''eff.org'')\<rparr>) = Failure \<and>
   PolicyListCheck ''policylist''
      \<lparr>DomainName = ''other.example'', Email = [], DomainMXs = [], MTASTSMode = [], State = [],
       LastUpdated = 0, TestingStart = 0, QueueWeeks = 0\<rparr>
      \<lparr>GetDomain = (\<lambda>name state.
         (\<lparr>DomainName = name, Email = [], DomainMXs = [], MTASTSMode = [], State = state,
           LastUpdated = 0, TestingStart = 0, QueueWeeks = 0\<rparr>,
          if name = ''added.example'' \<and> state = ''added'' \<or>
             name = ''queued.example'' \<and> state = ''queued'' \<or>
             name = ''pending.example'' \<and> state = ''unvalidated''
          then None else Some (Err ''not found'')))\<rparr>
      \<lparr>HasDomain = (\<lambda>name. name = ''eff.org'')\<rparr>
     = Result_Failure \<lparr>Name = ''policylist'', Status = 0, Messages = []\<rparr>
         ''Domain other.example is not on the policy list.''"
proof -
  let ?store = "\<lparr>GetDomain = (\<lambda>name state.
         (\<lparr>DomainName = name, Email = [], DomainMXs = [], MTASTSMode = [], State = state,
           LastUpdated = 0, TestingStart = 0, QueueWeeks = 0\<rparr>,
          if name = ''added.example'' \<and> state = ''added'' \<or>
             name = ''queued.example'' \<and> state = ''queued'' \<or>
             name = ''pending.example'' \<and> state = ''unvalidated''
          then None else Some (Err ''not found'')))\<rparr>"
  let ?list = "\<lparr>HasDomain = (\<lambda>name. name = ''eff.org'')\<rparr>"
  let ?d = "\<lambda>name. \<lparr>DomainName = name, Email = [], DomainMXs = [], MTASTSMode = [], State = [],
       LastUpdated = 0, TestingStart = 0, QueueWeeks = 0\<rparr>"
  show ?thesis
    using policy_list_check_precedence [of ?list "?d ''eff.org''" "''policylist''" ?store]
      policy_list_check_precedence [of ?list "?d ''added.example''" "''policylist''" ?store]
      policy_list_check_precedence [of ?list "?d ''queued.example''" "''policylist''" ?store]
      policy_list_check_precedence [of ?list "?d ''pending.example''" "''policylist''" ?store]
      policy_list_check_precedence [of ?list "?d ''other.example''" "''policylist''" ?store]
    by (simp add: StateEnforce_def StateTesting_def StateUnconfirmed_def
          Result_Success_def Result_Warning_def Result_Failure_def)
qed

section \<open>The overall status of a domain\<close>

lemma mostSevere_Max: "mostSevere ss = Max (insert Success (set ss))"
  by (simp add: mostSevere_def Max.set_eq_fold [symmetric])

lemma lookup_fold_update:
  "Mapping.lookup (fold (\<lambda>k. Mapping.update k (f k)) ks mp) k' =
     (if k' \<in> set ks then Some (f k') else Mapping.lookup mp k')"
  by (induction ks arbitrary: mp) (auto simp: Mapping.lookup_update')

lemma hostnameStatuses_compose:
  "hostnameStatuses (composeDomainResult domain hostnames hostnameResult mtasts inconsistency) =
     (\<lambda>hostname. HostnameStatus (hostnameResult hostname)) ` set hostnames"
  by (auto simp: hostnameStatuses_def composeDomainResult_def lookup_fold_update)

text \<open>
  C3: the overall status of a composed \<open>DomainResult\<close> is the most severe of the statuses
  of the hostname results it holds and of the severity of an MTA-STS cross-validation
  inconsistency, with success as the least. In particular, with a success and a failure
  among the hostname results and nothing more severe than a failure, the overall status is
  failure; with every hostname result a success and no inconsistency, it is success.
\<close>

theorem domain_status_most_severe:
  "DomainStatus (composeDomainResult domain hostnames hostnameResult mtasts inconsistency) =
     Max (insert Success
       (hostnameStatuses (composeDomainResult domain hostnames hostnameResult mtasts inconsistency)
        \<union> set_option inconsistency)) \<and>
   (Success \<in> hostnameStatuses (composeDomainResult domain hostnames hostnameResult mtasts inconsistency) \<and>
    Failure \<in> hostnameStatuses (composeDomainResult domain hostnames hostnameResult mtasts inconsistency) \<and>
    (\<forall>s \<in> hostnameStatuses (composeDomainResult domain hostnames hostnameResult mtasts inconsistency)
            \<union> set_option inconsistency. s \<le> Failure) \<longrightarrow>
      DomainStatus (composeDomainResult domain hostnames hostnameResult mtasts inconsistency) = Failure) \<and>
   ((\<forall>s \<in> hostnameStatuses (composeDomainResult domain hostnames hostnameResult mtasts inconsistency).
        s = Success) \<and> inconsistency = None \<longrightarrow>
      DomainStatus (composeDomainResult domain hostnames hostnameResult mtasts inconsistency) = Success)"
proof -
  let ?dr = "composeDomainResult domain hostnames hostnameResult mtasts inconsistency"
  let ?S = "insert Success (hostnameStatuses ?dr \<union> set_option inconsistency)"
  have fin: "finite ?S" by (simp add: hostnameStatuses_compose)
  have "DomainStatus ?dr =
      Max (insert Success (set (map (\<lambda>hostname. HostnameStatus (hostnameResult hostname)) hostnames @
                    (case inconsistency of None \<Rightarrow> [] | Some s \<Rightarrow> [s]))))"
    by (simp add: composeDomainResult_def mostSevere_Max)
  also have "set (map (\<lambda>hostname. HostnameStatus (hostnameResult hostname)) hostnames @
                    (case inconsistency of None \<Rightarrow> [] | Some s \<Rightarrow> [s])) =
       hostnameStatuses ?dr \<union> set_option inconsistency"
    by (cases inconsistency) (simp_all add: hostnameStatuses_compose)
  finally have a: "DomainStatus ?dr = Max ?S" .
  have b: "Success \<in> hostnameStatuses ?dr \<and> Failure \<in> hostnameStatuses ?dr \<and>
    (\<forall>s \<in> hostnameStatuses ?dr \<union> set_option inconsistency. s \<le> Failure) \<longrightarrow>
      DomainStatus ?dr = Failure"
  proof
    assume h: "Success \<in> hostnameStatuses ?dr \<and> Failure \<in> hostnameStatuses ?dr \<and>
      (\<forall>s \<in> hostnameStatuses ?dr \<union> set_option inconsistency. s \<le> Failure)"
    then have "Failure \<in> ?S" by simp
    moreover have "\<forall>s \<in> ?S. s \<le> Failure" using h by (auto simp: Success_def)
    ultimately have "Max ?S = Failure" using fin by (intro Max_eqI) auto
    then show "DomainStatus ?dr = Failure" using a by simp
  qed
  have c: "(\<forall>s \<in> hostnameStatuses ?dr. s = Success) \<and> inconsistency = None \<longrightarrow>
      DomainStatus ?dr = Success"
  proof
    assume h: "(\<forall>s \<in> hostnameStatuses ?dr. s = Success) \<and> inconsistency = None"
    then have "\<forall>s \<in> ?S. s \<le> Success" by auto
    then have "Max ?S = Success" using fin by (intro Max_eqI) auto
    then show "DomainStatus ?dr = Success" using a by simp
  qed
  from a b c show ?thesis by blast
qed

theorem domain_status_most_severe_witness:
  "DomainStatus
     (composeDomainResult ''example.com'' [''mx1.example.com'', ''mx2.example.com'']
      (\<lambda>h. if h = ''mx1.example.com'' then \<lparr>Hostname = h, HostnameStatus = Success, HostnameMessages = [], Timestamp = 0\<rparr> else \<lparr>Hostname = h, HostnameStatus = Failure, HostnameMessages = [''no STARTTLS''], Timestamp = 0\<rparr>)
      None None) = Failure \<and>
   DomainStatus
     (composeDomainResult ''example.com'' [''mx1.example.com'', ''mx2.example.com'']
      (\<lambda>h. \<lparr>Hostname = h, HostnameStatus = Success, HostnameMessages = [], Timestamp = 0\<rparr>)
      None None) = Success"
  using domain_status_most_severe [of "''example.com''" "[''mx1.example.com'', ''mx2.example.com'']"
      "(\<lambda>h. if h = ''mx1.example.com'' then \<lparr>Hostname = h, HostnameStatus = Success, HostnameMessages = [], Timestamp = 0\<rparr> else \<lparr>Hostname = h, HostnameStatus = Failure, HostnameMessages = [''no STARTTLS''], Timestamp = 0\<rparr>)" None None]
    domain_status_most_severe [of "''example.com''" "[''mx1.example.com'', ''mx2.example.com'']"
      "(\<lambda>h. \<lparr>Hostname = h, HostnameStatus = Success, HostnameMessages = [], Timestamp = 0\<rparr>)" None None]
  by (simp add: hostnameStatuses_compose Success_def Failure_def)

section \<open>A tick of the validator\<close>

lemma reports_of_validateDomains:
  "filter isReport (validateDomains v ds) =
     map (\<lambda>d. ReportFailure (ValidatorName v) d (verdictOf v d))
       (filter (\<lambda>d. DomainStatus (verdictOf v d) \<noteq> Success) ds)"
  by (induction ds) simp_all

lemma checks_of_validateDomains:
  "filter (\<lambda>c. \<not> isReport c) (validateDomains v ds) =
     map (\<lambda>d. PerformCheck d (HostnamesForDomain (Store v) d)) ds"
  by (induction ds) simp_all

lemma report_in_validateDomains:
  "(ReportFailure name d r \<in> set (validateDomains v ds)) =
     (name = ValidatorName v \<and> d \<in> set ds \<and> r = verdictOf v d \<and> DomainStatus r \<noteq> Success)"
  by (induction ds) auto

text \<open>
  C5: on a tick the check function is called once for each domain of the store, in order,
  with the hostnames the store gives for it; the failure reporter is called with the name
  of the validator, the domain and the verdict exactly for the domains whose verdict has a
  status other than success, and for no other.
\<close>

theorem tick_reports_failures:
  "filter (\<lambda>c. \<not> isReport c) (tick v) =
     map (\<lambda>d. PerformCheck d (HostnamesForDomain (Store v) d)) (DomainsToValidate (Store v)) \<and>
   filter isReport (tick v) =
     map (\<lambda>d. ReportFailure (ValidatorName v) d (verdictOf v d))
       (filter (\<lambda>d. DomainStatus (verdictOf v d) \<noteq> Success) (DomainsToValidate (Store v))) \<and>
   (ReportFailure name d r \<in> set (tick v)) =
     (name = ValidatorName v \<and> d \<in> set (DomainsToValidate (Store v)) \<and>
      r = verdictOf v d \<and> DomainStatus r \<noteq> Success)"
  by (simp add: tick_def reports_of_validateDomains checks_of_validateDomains
        report_in_validateDomains)

theorem tick_reports_failures_witness:
  "filter isReport (tick
      \<lparr>ValidatorName = ''mock'', Interval = 100000000,
       Store = \<lparr>DomainsToValidate = [''fail'', ''error'', ''normal''],
                HostnamesForDomain = (\<lambda>domain. [''hostname''])\<rparr>,
       checkPerformer = (\<lambda>domain hostnames.
         if domain = ''fail'' \<or> domain = ''error''
         then \<lparr>Domain = [], HostnameResults = Mapping.empty, MTASTSResult = None, DomainStatus = 5\<rparr>
         else \<lparr>Domain = [], HostnameResults = Mapping.empty, MTASTSResult = None, DomainStatus = 0\<rparr>)\<rparr>) =
     [ReportFailure ''mock'' ''fail'' \<lparr>Domain = [], HostnameResults = Mapping.empty, MTASTSResult = None, DomainStatus = 5\<rparr>,
      ReportFailure ''mock'' ''error'' \<lparr>Domain = [], HostnameResults = Mapping.empty, MTASTSResult = None, DomainStatus = 5\<rparr>] \<and>
   ReportFailure ''mock'' ''normal'' \<lparr>Domain = [], HostnameResults = Mapping.empty, MTASTSResult = None, DomainStatus = 0\<rparr> \<notin> set (tick
      \<lparr>ValidatorName = ''mock'', Interval = 100000000,
       Store = \<lparr>DomainsToValidate = [''fail'', ''error'', ''normal''],
                HostnamesForDomain = (\<lambda>domain. [''hostname''])\<rparr>,
       checkPerformer = (\<lambda>domain hostnames.
         if domain = ''fail'' \<or> domain = ''error''
         then \<lparr>Domain = [], HostnameResults = Mapping.empty, MTASTSResult = None, DomainStatus = 5\<rparr>
         else \<lparr>Domain = [], HostnameResults = Mapping.empty, MTASTSResult = None, DomainStatus = 0\<rparr>)\<rparr>)"
  using tick_reports_failures [of
      "\<lparr>ValidatorName = ''mock'', Interval = 100000000,
       Store = \<lparr>DomainsToValidate = [''fail'', ''error'', ''normal''],
                HostnamesForDomain = (\<lambda>domain. [''hostname''])\<rparr>,
       checkPerformer = (\<lambda>domain hostnames.
         if domain = ''fail'' \<or> domain = ''error''
         then \<lparr>Domain = [], HostnameResults = Mapping.empty, MTASTSResult = None, DomainStatus = 5\<rparr>
         else \<lparr>Domain = [], HostnameResults = Mapping.empty, MTASTSResult = None, DomainStatus = 0\<rparr>)\<rparr>"
      "''mock''" "''normal''" "\<lparr>Domain = [], HostnameResults = Mapping.empty, MTASTSResult = None, DomainStatus = 0\<rparr>"]
  by (simp add: verdictOf_def Success_def)

end
